theory Spec2Isabelle
  imports Main "HOL-Library.Sublist" "HOL-Library.AList"
begin

section \<open>Python values\<close>

text \<open>
  An \<open>exn\<close> is an instance of a subclass of Python's \<open>Exception\<close>: the class every
  \<open>except Exception\<close> clause of the sources catches. The second field is the message
  that \<open>str(e)\<close> returns.
\<close>

datatype exn_kind =
  ValueError | AttributeError | TypeError | KeyError | RuntimeError
  | JSONDecodeError | TimeoutError | OtherError

datatype exn = Exn exn_kind string

fun str_exn :: "exn \<Rightarrow> string" where
  "str_exn (Exn k m) = m"

text \<open>
  JSON-shaped data: the request bodies, the payloads and the response mappings. A dict is
  the list of its items in insertion order; lookups take the first item with the key.
\<close>

datatype json =
  JNull | JBool bool | JNum int | JStr string | JList "json list"
  | JObj "(string \<times> json) list"

fun type_name :: "json \<Rightarrow> string" where
  "type_name JNull = ''NoneType''"
| "type_name (JBool b) = ''bool''"
| "type_name (JNum n) = ''int''"
| "type_name (JStr s) = ''str''"
| "type_name (JList xs) = ''list''"
| "type_name (JObj d) = ''dict''"

definition attribute_error :: "json \<Rightarrow> string \<Rightarrow> exn" where
  "attribute_error v a =
     Exn AttributeError ([CHR 0x27] @ type_name v @ ''' object has no attribute ''
                         @ [CHR 0x27] @ a @ [CHR 0x27])"

text \<open>\<open>d.get(k, default)\<close> on a value that may not be a dict.\<close>

fun py_get :: "json \<Rightarrow> string \<Rightarrow> json \<Rightarrow> exn + json" where
  "py_get (JObj d) k dflt = Inr (case map_of d k of None \<Rightarrow> dflt | Some v \<Rightarrow> v)"
| "py_get v k dflt = Inl (attribute_error v ''get'')"

section \<open>Strings\<close>

text \<open>
  A Python \<open>str\<close> is modelled by its UTF-8 bytes; a substring test on the bytes
  agrees with the test on the code points. \<open>str.lower\<close> and \<open>str.strip\<close> are
  modelled on the ASCII range: letters and white space beyond it are left as they are.
  The general theorems below use no property of \<open>lower\<close>; only their instances at
  ASCII texts evaluate it.
\<close>

definition lower_char :: "char \<Rightarrow> char" where
  "lower_char c =
     (let n = (of_char c :: nat)
      in if 65 \<le> n \<and> n \<le> 90 then char_of (n + 32) else c)"

definition lower :: "string \<Rightarrow> string" where
  "lower s = map lower_char s"

text \<open>\<open>sub in text\<close> on strings.\<close>

fun str_in :: "string \<Rightarrow> string \<Rightarrow> bool" where
  "str_in sub [] = (sub = [])"
| "str_in sub (c # cs) = (prefix sub (c # cs) \<or> str_in sub cs)"

definition is_space :: "char \<Rightarrow> bool" where
  "is_space c = (of_char c \<in> {9, 10, 11, 12, 13, 28, 29, 30, 31, 32 :: nat})"

definition strip :: "string \<Rightarrow> string" where
  "strip s = rev (dropWhile is_space (rev (dropWhile is_space s)))"

text \<open>
  \<open>text.split(sep)\<close> for a non-empty separator: a left-to-right scan for non-overlapping
  occurrences. Python raises \<open>ValueError\<close> on an empty separator; the sources only split
  at non-empty constants, and the model returns the one-element list there.
\<close>

function split_aux :: "string \<Rightarrow> string \<Rightarrow> string \<Rightarrow> string list" where
  "split_aux sep acc [] = [rev acc]"
| "split_aux sep acc (c # cs) =
     (if sep \<noteq> [] \<and> prefix sep (c # cs)
      then rev acc # split_aux sep [] (drop (length sep) (c # cs))
      else split_aux sep (c # acc) cs)"
  by pat_completeness auto
termination
  by (relation "measure (\<lambda>(sep, acc, s). length s)") (auto simp: neq_Nil_conv)

definition split :: "string \<Rightarrow> string \<Rightarrow> string list" where
  "split s sep = split_aux sep [] s"

section \<open>The protocol client (mcp\_client.py)\<close>

text \<open>
  \<open>MCPClient\<close> wraps two objects of the protocol library: the stdio transport context
  (\<open>_client_ctx\<close>) and the \<open>ClientSession\<close> (\<open>session\<close>). Both fields start as \<open>None\<close>.
\<close>

record MCPClient =
  server_params :: "string \<times> string list"
  timeout :: nat
  session :: "unit option"
  client_ctx :: "unit option"

text \<open>
  \<open>MCPClient.__init__\<close> as the loaders call it, with \<open>server_command\<close> and \<open>server_args\<close>
  only: \<open>server_script_path\<close> is \<open>None\<close>, so an empty command or an empty argument list
  reaches the final \<open>raise ValueError\<close>.
\<close>

definition MCPClient_init :: "string \<Rightarrow> string list \<Rightarrow> nat \<Rightarrow> exn + MCPClient" where
  "MCPClient_init server_command server_args tmo =
     (if server_command \<noteq> [] \<and> server_args \<noteq> []
      then Inr \<lparr>server_params = (server_command, server_args), timeout = tmo,
                session = None, client_ctx = None\<rparr>
      else Inl (Exn ValueError
        ''Either (server_command, server_args) or server_script_path must be provided''))"

text \<open>
  The protocol library and the subprocess behind it are the environment. A trace records
  every call into the library and every error record written to the log (the
  informational log records are left out), and the environment decides, from the trace
  so far, whether a call raises.
\<close>

datatype event =
  TransportEnter | SessionEnter | Initialize | CallTool string json
  | SessionExit | TransportExit | LogError string

type_synonym trace = "event list"

text \<open>What the sources read of a tool's result: \<open>str(result)\<close> and \<open>str(type(result))\<close>.\<close>

record tool_result =
  result_str :: string
  result_type :: string

record mcp_env =
  op_outcome :: "trace \<Rightarrow> event \<Rightarrow> exn option"
  tool_outcome :: "trace \<Rightarrow> string \<Rightarrow> json \<Rightarrow> exn + tool_result"

definition perform :: "mcp_env \<Rightarrow> event \<Rightarrow> trace \<Rightarrow> (exn + unit) \<times> trace" where
  "perform env ev tr =
     ((case op_outcome env tr ev of None \<Rightarrow> Inr () | Some e \<Rightarrow> Inl e), tr @ [ev])"

text \<open>
  The \<open>except\<close> clause of \<open>__aenter__\<close>: exit whatever is set, then re-raise. An exception
  of one of the two exits replaces the original one.
\<close>

definition aenter_handler :: "mcp_env \<Rightarrow> exn \<Rightarrow> MCPClient \<Rightarrow> trace \<Rightarrow> exn \<times> trace" where
  "aenter_handler env e c tr =
     (let tr0 = tr @ [LogError (''Failed to initialize MCP client: '' @ str_exn e)];
          (r1, tr1) = (if session c \<noteq> None then perform env SessionExit tr0 else (Inr (), tr0))
      in case r1 of
           Inl e1 \<Rightarrow> (e1, tr1)
         | Inr u \<Rightarrow>
             (let (r2, tr2) =
                    (if client_ctx c \<noteq> None then perform env TransportExit tr1 else (Inr (), tr1))
              in case r2 of Inl e2 \<Rightarrow> (e2, tr2) | Inr u \<Rightarrow> (e, tr2)))"

text \<open>\<open>MCPClient.__aenter__\<close>.\<close>

definition aenter :: "mcp_env \<Rightarrow> MCPClient \<Rightarrow> trace \<Rightarrow> (exn + unit) \<times> MCPClient \<times> trace" where
  "aenter env c tr =
     (let c1 = c\<lparr>client_ctx := Some ()\<rparr>;
          (r1, tr1) = perform env TransportEnter tr
      in case r1 of
           Inl e \<Rightarrow> (let (e', tr') = aenter_handler env e c1 tr1 in (Inl e', c1, tr'))
         | Inr u \<Rightarrow>
             (let c2 = c1\<lparr>session := Some ()\<rparr>;
                  (r2, tr2) = perform env SessionEnter tr1
              in case r2 of
                   Inl e \<Rightarrow> (let (e', tr') = aenter_handler env e c2 tr2 in (Inl e', c2, tr'))
                 | Inr u \<Rightarrow>
                     (let (r3, tr3) = perform env Initialize tr2
                      in case r3 of
                           Inl e \<Rightarrow>
                             (let (e', tr') = aenter_handler env e c2 tr3 in (Inl e', c2, tr'))
                         | Inr u \<Rightarrow> (Inr (), c2, tr3))))"

text \<open>
  \<open>MCPClient.__aexit__\<close>: the body of its \<open>try\<close>, then the whole method. It assigns no
  field of the client, so the client is not returned.
\<close>

definition aexit_body :: "mcp_env \<Rightarrow> MCPClient \<Rightarrow> trace \<Rightarrow> (exn + unit) \<times> trace" where
  "aexit_body env c tr =
     (let (r1, tr1) = (if session c \<noteq> None then perform env SessionExit tr else (Inr (), tr))
      in case r1 of
           Inl e \<Rightarrow> (Inl e, tr1)
         | Inr u \<Rightarrow>
             (if client_ctx c \<noteq> None then perform env TransportExit tr1 else (Inr (), tr1)))"

definition aexit :: "mcp_env \<Rightarrow> MCPClient \<Rightarrow> trace \<Rightarrow> (exn + unit) \<times> trace" where
  "aexit env c tr =
     (case aexit_body env c tr of
        (Inl e, tr') \<Rightarrow> (Inr (), tr' @ [LogError (''Error closing MCP client: '' @ str_exn e)])
      | (Inr u, tr') \<Rightarrow> (Inr u, tr'))"

text \<open>\<open>MCPClient.call_tool\<close>.\<close>

definition call_tool ::
  "mcp_env \<Rightarrow> MCPClient \<Rightarrow> string \<Rightarrow> json \<Rightarrow> trace \<Rightarrow> (exn + tool_result) \<times> trace" where
  "call_tool env c tool_name arguments tr =
     (if session c = None then (Inl (Exn RuntimeError ''MCP session not initialized''), tr)
      else case tool_outcome env tr tool_name arguments of
             Inl e \<Rightarrow>
               (Inl e, tr @ [CallTool tool_name arguments,
                             LogError (''Failed to call tool '' @ tool_name @ '': '' @ str_exn e)])
           | Inr r \<Rightarrow> (Inr r, tr @ [CallTool tool_name arguments]))"

text \<open>
  The block \<open>async with client as mcp_session: result = await mcp_session.call_tool(...)\<close>:
  if \<open>__aenter__\<close> raises, \<open>__aexit__\<close> is not called; otherwise it is called on every way
  out of the body and, returning \<open>None\<close>, lets an exception of the body pass.
\<close>

definition scoped_call_tool ::
  "mcp_env \<Rightarrow> MCPClient \<Rightarrow> string \<Rightarrow> json \<Rightarrow> trace \<Rightarrow> (exn + tool_result) \<times> trace" where
  "scoped_call_tool env c tool_name arguments tr =
     (case aenter env c tr of
        (Inl e, c1, tr1) \<Rightarrow> (Inl e, tr1)
      | (Inr u, c1, tr1) \<Rightarrow>
          (let (r, tr2) = call_tool env c1 tool_name arguments tr1;
               (x, tr3) = aexit env c1 tr2
           in case x of Inl e \<Rightarrow> (Inl e, tr3) | Inr u \<Rightarrow> (r, tr3)))"

section \<open>Configuration sources\<close>

text \<open>
  What a loader finds at the configuration path: no file, a file that \<open>json.load\<close> rejects,
  or a JSON document. The document shapes that decide the loaders' control flow are kept
  apart: a top level that is not an object, an \<open>mcpServers\<close> value that is not an object,
  and a server entry that is not an object (each makes \<open>.get\<close> or \<open>.items\<close> raise
  \<open>AttributeError\<close>). The fields of an entry are optional and typed as \<open>MCPServerInfo\<close>
  declares them.
\<close>

datatype entry =
  EntryNotObject
  | Entry (e_command: "string option") (e_args: "string list option")
          (e_description: "string option") (e_keywords: "string list option")

datatype servers_field = ServersNotObject | ServersObject "(string \<times> entry) list"

datatype config_doc = DocNotObject | DocObject "servers_field option"

datatype config_source = FileMissing | FileUndecodable string | FileJson config_doc

section \<open>The registry (mcp\_registry.py)\<close>

record server_entry =
  client :: MCPClient
  command :: string
  args :: "string list"
  description :: string
  "keywords" :: "string list"

record MCPServerInfo = server_entry +
  name :: string

type_synonym registry = "(string \<times> MCPServerInfo) list"

text \<open>One iteration of the loop of \<open>MCPRegistry.load_config\<close>.\<close>

fun register_server :: "registry \<Rightarrow> string \<times> entry \<Rightarrow> exn + registry" where
  "register_server servers (server_name, EntryNotObject) =
     Inl (Exn AttributeError (''object has no attribute '' @ [CHR 0x27] @ ''get'' @ [CHR 0x27]))"
| "register_server servers (server_name, Entry c a d k) =
     (let command = (case c of None \<Rightarrow> ''python'' | Some x \<Rightarrow> x);
          args = (case a of None \<Rightarrow> [] | Some x \<Rightarrow> x);
          description = (case d of None \<Rightarrow> ''MCP Server: '' @ server_name | Some x \<Rightarrow> x);
          keywords = (case k of None \<Rightarrow> [] | Some x \<Rightarrow> x)
      in case MCPClient_init command args 30 of
           Inl e \<Rightarrow> Inl e
         | Inr cl \<Rightarrow>
             Inr (AList.update server_name
                    \<lparr>client = cl, command = command, args = args,
                     description = description, keywords = keywords,
                     name = server_name\<rparr> servers))"

text \<open>
  The loop itself. An exception leaves the loop with the servers registered so far: the
  assignments to \<open>self.servers\<close> already made are not undone.
\<close>

fun register_all :: "registry \<Rightarrow> (string \<times> entry) list \<Rightarrow> (exn + unit) \<times> registry" where
  "register_all servers [] = (Inr (), servers)"
| "register_all servers (x # xs) =
     (case register_server servers x of
        Inl e \<Rightarrow> (Inl e, servers)
      | Inr servers' \<Rightarrow> register_all servers' xs)"

text \<open>The body of the \<open>try\<close> of \<open>load_config\<close>.\<close>

fun load_config_body :: "config_source \<Rightarrow> registry \<Rightarrow> (exn + unit) \<times> registry" where
  "load_config_body FileMissing servers = (Inr (), servers)"
| "load_config_body (FileUndecodable m) servers = (Inl (Exn JSONDecodeError m), servers)"
| "load_config_body (FileJson DocNotObject) servers =
     (Inl (Exn AttributeError (''object has no attribute '' @ [CHR 0x27] @ ''get'' @ [CHR 0x27])), servers)"
| "load_config_body (FileJson (DocObject None)) servers = register_all servers []"
| "load_config_body (FileJson (DocObject (Some ServersNotObject))) servers =
     (Inl (Exn AttributeError (''object has no attribute '' @ [CHR 0x27] @ ''items'' @ [CHR 0x27])), servers)"
| "load_config_body (FileJson (DocObject (Some (ServersObject es)))) servers =
     register_all servers es"

text \<open>\<open>load_config\<close>: the \<open>except Exception\<close> clause logs the error and returns.\<close>

definition load_config :: "config_source \<Rightarrow> registry \<Rightarrow> (exn + unit) \<times> registry" where
  "load_config src servers =
     (case load_config_body src servers of
        (Inl e, servers') \<Rightarrow> (Inr (), servers')
      | (Inr u, servers') \<Rightarrow> (Inr u, servers'))"

text \<open>\<open>reload_config\<close>: \<open>self.servers.clear()\<close>, then \<open>self.load_config()\<close>.\<close>

definition reload_config :: "config_source \<Rightarrow> registry \<Rightarrow> (exn + unit) \<times> registry" where
  "reload_config src servers = load_config src []"

text \<open>
  \<open>MCPRegistry.find_server_by_keywords\<close>. The inner loop over one server's keywords
  returns at the first keyword whose lower-cased form occurs in the lower-cased text.
\<close>

fun any_keyword_in :: "string list \<Rightarrow> string \<Rightarrow> bool" where
  "any_keyword_in [] text_lower = False"
| "any_keyword_in (keyword # rest) text_lower =
     (if str_in (lower keyword) text_lower then True else any_keyword_in rest text_lower)"

text \<open>The first loop, over \<open>self.servers.values()\<close>.\<close>

fun registry_keyword_loop :: "MCPServerInfo list \<Rightarrow> string \<Rightarrow> MCPServerInfo option" where
  "registry_keyword_loop [] text_lower = None"
| "registry_keyword_loop (server # rest) text_lower =
     (if any_keyword_in (keywords server) text_lower then Some server
      else registry_keyword_loop rest text_lower)"

text \<open>The second loop (\<open># Fallback: check server name\<close>), over \<open>self.servers.items()\<close>.\<close>

fun registry_name_loop :: "registry \<Rightarrow> string \<Rightarrow> MCPServerInfo option" where
  "registry_name_loop [] text_lower = None"
| "registry_name_loop ((server_name, server) # rest) text_lower =
     (if str_in (lower server_name) text_lower then Some server
      else registry_name_loop rest text_lower)"

definition registry_find_server_by_keywords :: "registry \<Rightarrow> string \<Rightarrow> MCPServerInfo option" where
  "registry_find_server_by_keywords servers text =
     (let text_lower = lower text in
      case registry_keyword_loop (map snd servers) text_lower of
        Some server \<Rightarrow> Some server
      | None \<Rightarrow> registry_name_loop servers text_lower)"

section \<open>The agent service (main.py)\<close>

text \<open>
  The module-level dict \<open>mcp_servers\<close>: server name to a dict with the keys \<open>client\<close>,
  \<open>command\<close>, \<open>args\<close>, \<open>description\<close> and \<open>keywords\<close>.
\<close>

type_synonym mcp_servers = "(string \<times> server_entry) list"

text \<open>One iteration of the loop of \<open>load_mcp_config\<close>.\<close>

fun load_server :: "mcp_servers \<Rightarrow> string \<times> entry \<Rightarrow> exn + mcp_servers" where
  "load_server servers (server_name, EntryNotObject) =
     Inl (Exn AttributeError (''object has no attribute '' @ [CHR 0x27] @ ''get'' @ [CHR 0x27]))"
| "load_server servers (server_name, Entry c a d k) =
     (let command = (case c of None \<Rightarrow> ''python'' | Some x \<Rightarrow> x);
          args = (case a of None \<Rightarrow> [] | Some x \<Rightarrow> x);
          description = (case d of None \<Rightarrow> ''MCP Server: '' @ server_name | Some x \<Rightarrow> x);
          keywords = (case k of None \<Rightarrow> [] | Some x \<Rightarrow> x)
      in case MCPClient_init command args 30 of
           Inl e \<Rightarrow> Inl e
         | Inr cl \<Rightarrow>
             Inr (AList.update server_name
                    \<lparr>client = cl, command = command, args = args,
                     description = description, keywords = keywords\<rparr> servers))"

fun load_all :: "mcp_servers \<Rightarrow> (string \<times> entry) list \<Rightarrow> (exn + unit) \<times> mcp_servers" where
  "load_all servers [] = (Inr (), servers)"
| "load_all servers (x # xs) =
     (case load_server servers x of
        Inl e \<Rightarrow> (Inl e, servers)
      | Inr servers' \<Rightarrow> load_all servers' xs)"

fun load_mcp_config_body :: "config_source \<Rightarrow> mcp_servers \<Rightarrow> (exn + unit) \<times> mcp_servers" where
  "load_mcp_config_body FileMissing servers = (Inr (), servers)"
| "load_mcp_config_body (FileUndecodable m) servers = (Inl (Exn JSONDecodeError m), servers)"
| "load_mcp_config_body (FileJson DocNotObject) servers =
     (Inl (Exn AttributeError (''object has no attribute '' @ [CHR 0x27] @ ''get'' @ [CHR 0x27])), servers)"
| "load_mcp_config_body (FileJson (DocObject None)) servers = load_all servers []"
| "load_mcp_config_body (FileJson (DocObject (Some ServersNotObject))) servers =
     (Inl (Exn AttributeError (''object has no attribute '' @ [CHR 0x27] @ ''items'' @ [CHR 0x27])), servers)"
| "load_mcp_config_body (FileJson (DocObject (Some (ServersObject es)))) servers =
     load_all servers es"

text \<open>
  \<open>load_mcp_config\<close> assigns into the global \<open>mcp_servers\<close> and never empties it; its
  \<open>except Exception\<close> clause logs and returns. The \<open>/agent/config/reload\<close> endpoint
  calls it again on the dict as it stands.
\<close>

definition load_mcp_config :: "config_source \<Rightarrow> mcp_servers \<Rightarrow> (exn + unit) \<times> mcp_servers" where
  "load_mcp_config src servers =
     (case load_mcp_config_body src servers of
        (Inl e, servers') \<Rightarrow> (Inr (), servers')
      | (Inr u, servers') \<Rightarrow> (Inr u, servers'))"

text \<open>\<open>find_server_by_keywords\<close> of main.py: the keyword loop, returning the server's name.\<close>

fun keyword_loop :: "mcp_servers \<Rightarrow> string \<Rightarrow> string option" where
  "keyword_loop [] text_lower = None"
| "keyword_loop ((server_name, server_info) # rest) text_lower =
     (if any_keyword_in (keywords server_info) text_lower then Some server_name
      else keyword_loop rest text_lower)"

text \<open>
  After the loop: \<open>next(iter(mcp_servers.keys())) if mcp_servers else None\<close>
  (\<open># Fallback to first server if no match\<close>).
\<close>

definition find_server_by_keywords :: "mcp_servers \<Rightarrow> string \<Rightarrow> string option" where
  "find_server_by_keywords servers text =
     (let text_lower = lower text in
      case keyword_loop servers text_lower of
        Some server_name \<Rightarrow> Some server_name
      | None \<Rightarrow>
          (case servers of [] \<Rightarrow> None | (server_name, server_info) # rest \<Rightarrow> Some server_name))"

text \<open>
  The request heuristics of \<open>do_task\<close> (the same statements stand in
  \<open>_generate_fallback_arguments\<close>): the text after the last occurrence of the first
  pattern found, and the tone. The non-ASCII literals are given by their UTF-8 bytes.
\<close>

definition patterns :: "string list" where
  "patterns =
     [[CHR 0xEF, CHR 0xBC, CHR 0x9A],
      '':'',
      [CHR 0xE9, CHR 0x82, CHR 0xAE, CHR 0xE4, CHR 0xBB, CHR 0xB6],
      [CHR 0xE5, CHR 0x86, CHR 0x85, CHR 0xE5, CHR 0xAE, CHR 0xB9, CHR 0xE6, CHR 0x98, CHR 0xAF],
      [CHR 0xE4, CHR 0xB8, CHR 0x8B, CHR 0xE9, CHR 0x9D, CHR 0xA2, CHR 0xE7, CHR 0x9A, CHR 0x84]]"

definition word_relaxed :: string where
  "word_relaxed = [CHR 0xE8, CHR 0xBD, CHR 0xBB, CHR 0xE6, CHR 0x9D, CHR 0xBE]"

definition word_urgent :: string where
  "word_urgent = [CHR 0xE7, CHR 0xB4, CHR 0xA7, CHR 0xE6, CHR 0x80, CHR 0xA5]"

fun extract_loop :: "string list \<Rightarrow> string \<Rightarrow> string \<Rightarrow> string" where
  "extract_loop [] user_request original_email = original_email"
| "extract_loop (pattern # rest) user_request original_email =
     (if str_in pattern user_request
      then (let parts = split user_request pattern
            in if length parts > 1 then strip (last parts)
               else extract_loop rest user_request original_email)
      else extract_loop rest user_request original_email)"

definition extract_original_email :: "string \<Rightarrow> string" where
  "extract_original_email user_request = extract_loop patterns user_request user_request"

definition detect_tone :: "string \<Rightarrow> string" where
  "detect_tone user_request =
     (if str_in word_relaxed user_request \<or> str_in ''casual'' (lower user_request)
      then ''casual''
      else if str_in word_urgent user_request \<or> str_in ''urgent'' (lower user_request)
      then ''urgent''
      else ''professional'')"

text \<open>\<open>x or "User request"\<close> on a string.\<close>

definition or_user_request :: "string \<Rightarrow> string" where
  "or_user_request s = (if s = [] then ''User request'' else s)"

definition server_info_json :: "server_entry \<Rightarrow> json" where
  "server_info_json server_info =
     JObj [(''command'', JStr (command server_info)),
           (''args'', JList (map JStr (args server_info))),
           (''description'', JStr (description server_info))]"

text \<open>
  \<open>call_mcp_server\<close>. The client is the one stored with the server; the fields that
  \<open>__aenter__\<close> sets on it are not written back, since one request is modelled.
\<close>

definition call_mcp_server ::
  "mcp_env \<Rightarrow> mcp_servers \<Rightarrow> string \<Rightarrow> string \<Rightarrow> json \<Rightarrow> trace \<Rightarrow> (exn + json) \<times> trace" where
  "call_mcp_server env servers server_name tool_name arguments tr =
     (case map_of servers server_name of
        None \<Rightarrow> (Inl (Exn ValueError (''Server not found: '' @ server_name)), tr)
      | Some server_info \<Rightarrow>
          (case scoped_call_tool env (client server_info) tool_name arguments tr of
             (Inr result, tr') \<Rightarrow>
               (Inr (JObj [(''success'', JBool True),
                           (''server_name'', JStr server_name),
                           (''tool_name'', JStr tool_name),
                           (''raw_mcp_result'', JStr (result_str result)),
                           (''mcp_result_type'', JStr (result_type result)),
                           (''server_info'', server_info_json server_info),
                           (''data'', JObj [(''reply_subject'', JStr ''MCP Response''),
                                            (''reply_body'', JStr (result_str result))])]),
                tr')
           | (Inl e, tr') \<Rightarrow>
               (Inr (JObj [(''success'', JBool False),
                           (''server_name'', JStr server_name),
                           (''tool_name'', JStr tool_name),
                           (''error'', JStr (str_exn e)),
                           (''server_info'', server_info_json server_info)]),
                tr' @ [LogError (''MCP call failed: '' @ str_exn e)])))"

text \<open>
  The body of the \<open>try\<close> of \<open>do_task\<close>. The request is a dict; \<open>input_data\<close> and
  \<open>user_request\<close> are whatever JSON the request holds, so \<open>.get\<close> and \<open>.lower\<close> may
  raise \<open>AttributeError\<close>. \<open>if not server_name\<close> is true for \<open>None\<close> and for the
  empty name.
\<close>

definition no_servers_available :: "mcp_servers \<Rightarrow> json" where
  "no_servers_available servers =
     JObj [(''success'', JBool False),
           (''error'', JStr ''No MCP servers available''),
           (''available_servers'', JList (map (JStr \<circ> fst) servers))]"

text \<open>
  \<open>input_data = request.get("input_data", request)\<close> and
  \<open>user_request = input_data.get("user_request", "")\<close>.
\<close>

definition request_user_request :: "(string \<times> json) list \<Rightarrow> exn + json" where
  "request_user_request request =
     (let input_data = (case map_of request ''input_data'' of None \<Rightarrow> JObj request | Some v \<Rightarrow> v)
      in py_get input_data ''user_request'' (JStr []))"

text \<open>The arguments that \<open>do_task\<close> prepares; \<open>context\<close> is a string here.\<close>

definition do_task_arguments :: "string \<Rightarrow> json" where
  "do_task_arguments user_request =
     (let original_email = extract_original_email user_request;
          tone = detect_tone user_request;
          urgency = (if tone = ''urgent'' then ''high'' else ''normal'');
          context_str = ''Reply type: reply, Urgency: '' @ urgency
      in JObj [(''original_email'', JStr (or_user_request original_email)),
               (''tone'', JStr tone),
               (''context'', JStr context_str)])"

definition do_task_body ::
  "mcp_env \<Rightarrow> mcp_servers \<Rightarrow> (string \<times> json) list \<Rightarrow> trace \<Rightarrow> (exn + json) \<times> trace" where
  "do_task_body env servers request tr =
     (case request_user_request request of
        Inl e \<Rightarrow> (Inl e, tr)
      | Inr (JStr user_request) \<Rightarrow>
          (case find_server_by_keywords servers user_request of
             None \<Rightarrow> (Inr (no_servers_available servers), tr)
           | Some server_name \<Rightarrow>
               (if server_name = [] then (Inr (no_servers_available servers), tr)
                else call_mcp_server env servers server_name ''generate_email_draft''
                       (do_task_arguments user_request) tr))
      | Inr v \<Rightarrow> (Inl (attribute_error v ''lower''), tr))"

text \<open>\<open>do_task\<close>: the \<open>except Exception\<close> clause answers with a failure mapping.\<close>

definition do_task ::
  "mcp_env \<Rightarrow> mcp_servers \<Rightarrow> (string \<times> json) list \<Rightarrow> trace \<Rightarrow> (exn + json) \<times> trace" where
  "do_task env servers request tr =
     (case do_task_body env servers request tr of
        (Inl e, tr') \<Rightarrow>
          (Inr (JObj [(''success'', JBool False),
                      (''error'', JStr (''Task processing error: '' @ str_exn e)),
                      (''available_servers'', JList (map (JStr \<circ> fst) servers))]),
           tr' @ [LogError (''Task processing failed: '' @ str_exn e)])
      | (Inr r, tr') \<Rightarrow> (Inr r, tr'))"

section \<open>The LLM tool selector (llm\_tool\_selector.py)\<close>

text \<open>
  \<open>available_tools\<close> maps a tool name to its info. The schemas that
  \<open>_get_tool_schemas\<close> collects (it catches every exception of a discovery and takes
  the default schema instead) are only written into the prompt, and the prompt only
  reaches the external model, so the model's answer is taken as given: \<open>llm\<close> is the
  outcome of \<open>await call_llm(messages, ...)\<close>, an exception or the message content
  (which may be \<open>None\<close>). \<open>loads\<close> is \<open>json.loads\<close>, with \<open>None\<close> for
  \<open>JSONDecodeError\<close>. A payload is a dict of JSON values.
\<close>

record tool_info =
  tool_client :: MCPClient
  "method" :: string
  tool_description :: string
  tool_keywords :: "string list"

type_synonym available_tools = "(string \<times> tool_info) list"

text \<open>
  \<open>_generate_fallback_arguments\<close> when \<open>user_request\<close> is a list or a dict: \<open>in\<close> is
  membership (of the elements, of the keys), and the first string method called on the
  value raises \<open>AttributeError\<close>.
\<close>

definition fallback_arguments_container :: "json \<Rightarrow> (string \<Rightarrow> bool) \<Rightarrow> exn + json" where
  "fallback_arguments_container user_request member =
     (if list_ex member patterns then Inl (attribute_error user_request ''split'')
      else if member word_relaxed
      then Inr (JObj [(''original_email'', user_request),
                      (''tone'', JStr ''casual''),
                      (''context'', JObj [(''reply_type'', JStr ''reply''),
                                          (''urgency'', JStr ''normal'')])])
      else Inl (attribute_error user_request ''lower''))"

text \<open>The legacy branch: the string values of the payload, each followed by a space.\<close>

fun text_content :: "(string \<times> json) list \<Rightarrow> string" where
  "text_content [] = []"
| "text_content ((key, JStr v) # rest) = v @ '' '' @ text_content rest"
| "text_content ((key, v) # rest) = text_content rest"

definition generate_fallback_arguments :: "(string \<times> json) list \<Rightarrow> exn + json" where
  "generate_fallback_arguments input_data =
     (case map_of input_data ''user_request'' of
        Some (JStr user_request) \<Rightarrow>
          (let original_email = extract_original_email user_request;
               tone = detect_tone user_request
           in Inr (JObj [(''original_email'', JStr (or_user_request original_email)),
                         (''tone'', JStr tone),
                         (''context'',
                            JObj [(''reply_type'', JStr ''reply''),
                                  (''urgency'',
                                     JStr (if tone = ''urgent'' then ''high'' else ''normal''))])]))
      | Some (JList xs) \<Rightarrow> fallback_arguments_container (JList xs) (\<lambda>p. JStr p \<in> set xs)
      | Some (JObj d) \<Rightarrow> fallback_arguments_container (JObj d) (\<lambda>p. p \<in> fst ` set d)
      | Some v \<Rightarrow>
          Inl (Exn TypeError (''argument of type '' @ [CHR 0x27] @ type_name v @ [CHR 0x27]
                              @ '' is not iterable''))
      | None \<Rightarrow>
          Inr (JObj [(''original_email'', JStr (or_user_request (strip (text_content input_data)))),
                     (''tone'', JStr ''professional''),
                     (''context'', JObj [(''reply_type'', JStr ''reply''),
                                         (''urgency'', JStr ''normal'')])]))"

text \<open>
  \<open>_fallback_selection\<close>: both branches of its keyword test return the same pair, so the
  test on \<open>str(input_data)\<close> is not written out.
\<close>

definition fallback_selection :: "(string \<times> json) list \<Rightarrow> exn + string \<times> json" where
  "fallback_selection input_data =
     (case generate_fallback_arguments input_data of
        Inl e \<Rightarrow> Inl e
      | Inr arguments \<Rightarrow> Inr (''email_draft'', arguments))"

text \<open>The loop of the \<open>except json.JSONDecodeError\<close> clause over the tool names.\<close>

fun scan_tool_names :: "string list \<Rightarrow> string \<Rightarrow> string option" where
  "scan_tool_names [] response_lower = None"
| "scan_tool_names (tool_name # rest) response_lower =
     (if str_in tool_name response_lower then Some tool_name
      else scan_tool_names rest response_lower)"

text \<open>
  \<open>_parse_llm_response\<close>. Only \<open>JSONDecodeError\<close> is handled here: the
  \<open>AttributeError\<close> of \<open>.strip\<close> on \<open>None\<close> and of \<open>.get\<close> on a parsed value that is
  not a dict leave the function.
\<close>

definition parse_llm_response ::
  "(string \<Rightarrow> json option) \<Rightarrow> available_tools \<Rightarrow> string option \<Rightarrow> exn + json \<times> json" where
  "parse_llm_response loads tools response =
     (case response of
        None \<Rightarrow> Inl (attribute_error JNull ''strip'')
      | Some resp \<Rightarrow>
          (case loads (strip resp) of
             Some parsed \<Rightarrow>
               (case py_get parsed ''selected_tool'' (JStr ''email_draft'') of
                  Inl e \<Rightarrow> Inl e
                | Inr tool_name \<Rightarrow>
                    (case py_get parsed ''arguments'' (JObj []) of
                       Inl e \<Rightarrow> Inl e
                     | Inr arguments \<Rightarrow> Inr (tool_name, arguments)))
           | None \<Rightarrow>
               (let tool_name = (case scan_tool_names (map fst tools) (lower resp) of
                                   Some tool_name \<Rightarrow> tool_name
                                 | None \<Rightarrow> ''email_draft'')
                in case generate_fallback_arguments [(''response'', JStr resp)] of
                     Inl e \<Rightarrow> Inl e
                   | Inr arguments \<Rightarrow> Inr (JStr tool_name, arguments))))"

text \<open>
  \<open>tool_name not in self.available_tools\<close>: a list or a dict is unhashable and raises
  \<open>TypeError\<close>; any other value that is not a key is simply not in the dict.
\<close>

definition validate_selection ::
  "available_tools \<Rightarrow> (string \<times> json) list \<Rightarrow> json \<times> json \<Rightarrow> exn + string \<times> json" where
  "validate_selection tools input_data sel =
     (case sel of
        (JList xs, arguments) \<Rightarrow> Inl (Exn TypeError (''unhashable type: '' @ [CHR 0x27] @ ''list'' @ [CHR 0x27]))
      | (JObj d, arguments) \<Rightarrow> Inl (Exn TypeError (''unhashable type: '' @ [CHR 0x27] @ ''dict'' @ [CHR 0x27]))
      | (tool_name, arguments) \<Rightarrow>
          (case (case tool_name of JStr t \<Rightarrow> if t \<in> set (map fst tools) then Some t else None
                                  | v \<Rightarrow> None) of
             Some t \<Rightarrow> Inr (t, arguments)
           | None \<Rightarrow>
               (case generate_fallback_arguments input_data of
                  Inl e \<Rightarrow> Inl e
                | Inr arguments' \<Rightarrow> Inr (''email_draft'', arguments'))))"

text \<open>\<open>_llm_select_and_generate\<close>: the body of its \<open>try\<close>, then the whole method.\<close>

definition llm_select_body ::
  "(string \<Rightarrow> json option) \<Rightarrow> exn + string option \<Rightarrow> available_tools \<Rightarrow> (string \<times> json) list
     \<Rightarrow> exn + string \<times> json" where
  "llm_select_body loads llm tools input_data =
     (case llm of
        Inl e \<Rightarrow> Inl e
      | Inr response \<Rightarrow>
          (case parse_llm_response loads tools response of
             Inl e \<Rightarrow> Inl e
           | Inr sel \<Rightarrow> validate_selection tools input_data sel))"

definition llm_select_and_generate ::
  "(string \<Rightarrow> json option) \<Rightarrow> exn + string option \<Rightarrow> available_tools \<Rightarrow> (string \<times> json) list
     \<Rightarrow> exn + string \<times> json" where
  "llm_select_and_generate loads llm tools input_data =
     (case llm_select_body loads llm tools input_data of
        Inl e \<Rightarrow> fallback_selection input_data
      | Inr r \<Rightarrow> Inr r)"

definition select_tool_and_generate_args ::
  "(string \<Rightarrow> json option) \<Rightarrow> exn + string option \<Rightarrow> available_tools \<Rightarrow> (string \<times> json) list
     \<Rightarrow> exn + string \<times> json" where
  "select_tool_and_generate_args loads llm tools input_data =
     llm_select_and_generate loads llm tools input_data"

section \<open>The specification's matching predicate\<close>

text \<open>
  Following the specification's words: a keyword set matches a text when some keyword,
  lower-cased, is a contiguous substring of the lower-cased text.
\<close>

definition spec_keyword_match :: "string list \<Rightarrow> string \<Rightarrow> bool" where
  "spec_keyword_match kws s = (\<exists>k \<in> set kws. sublist (lower k) (lower s))"

text \<open>
  The payload of the external interface carries \<open>user_request\<close> as a string; the
  legacy payloads carry no \<open>user_request\<close>.
\<close>

definition user_request_is_str :: "(string \<times> json) list \<Rightarrow> bool" where
  "user_request_is_str input_data =
     (case map_of input_data ''user_request'' of
        None \<Rightarrow> True | Some (JStr u) \<Rightarrow> True | Some v \<Rightarrow> False)"

text \<open>
  A configuration source that is absent or rejected before any server entry is read:
  no file, text that is not JSON, or a document of the wrong shape.
\<close>

fun source_rejected :: "config_source \<Rightarrow> bool" where
  "source_rejected FileMissing = True"
| "source_rejected (FileUndecodable m) = True"
| "source_rejected (FileJson DocNotObject) = True"
| "source_rejected (FileJson (DocObject (Some ServersNotObject))) = True"
| "source_rejected (FileJson (DocObject other)) = False"

text \<open>A server entry that both loaders accept: an object with a command and arguments.\<close>

fun entry_loadable :: "entry \<Rightarrow> bool" where
  "entry_loadable EntryNotObject = False"
| "entry_loadable (Entry c a d k) =
     ((case c of None \<Rightarrow> True | Some x \<Rightarrow> x \<noteq> []) \<and> (case a of None \<Rightarrow> False | Some x \<Rightarrow> x \<noteq> []))"

section \<open>Example values\<close>

definition example_client :: "string list \<Rightarrow> MCPClient" where
  "example_client as =
     \<lparr>server_params = (''python'', as), timeout = 30, session = None, client_ctx = None\<rparr>"

definition mailer :: server_entry where
  "mailer = \<lparr>client = example_client [''mailer.py''], command = ''python'',
              args = [''mailer.py''], description = ''MCP Server: mailer'',
              keywords = [''email'', ''mail'']\<rparr>"

definition planner :: server_entry where
  "planner = \<lparr>client = example_client [''planner.py''], command = ''python'',
               args = [''planner.py''], description = ''MCP Server: planner'',
               keywords = [''meeting'']\<rparr>"

definition mailer_info :: MCPServerInfo where
  "mailer_info = server_entry.extend mailer (MCPServerInfo.fields ''mailer'')"

definition planner_info :: MCPServerInfo where
  "planner_info = server_entry.extend planner (MCPServerInfo.fields ''planner'')"

text \<open>An environment in which no library call raises and every tool answers \<open>ok\<close>.\<close>

definition quiet_env :: mcp_env where
  "quiet_env =
     \<lparr>op_outcome = (\<lambda>tr ev. None),
      tool_outcome = (\<lambda>tr tool_name arguments.
                        Inr \<lparr>result_str = ''ok'', result_type = ''str''\<rparr>)\<rparr>"

text \<open>An environment in which the subprocess does not start in time.\<close>

definition stalled_env :: mcp_env where
  "stalled_env =
     \<lparr>op_outcome = (\<lambda>tr ev. if ev = TransportEnter then Some (Exn TimeoutError ''timed out'')
                               else None),
      tool_outcome = (\<lambda>tr tool_name arguments.
                        Inr \<lparr>result_str = ''ok'', result_type = ''str''\<rparr>)\<rparr>"

definition planner_config :: config_source where
  "planner_config =
     FileJson (DocObject (Some (ServersObject
       [(''planner'', Entry (Some ''python'') (Some [''planner.py''])
                        (Some ''MCP Server: planner'') (Some [''meeting'']))])))"

definition opened_client :: MCPClient where
  "opened_client = (example_client [''mailer.py''])\<lparr>session := Some (), client_ctx := Some ()\<rparr>"

definition calendar_tool :: tool_info where
  "calendar_tool = \<lparr>tool_client = example_client [''calendar.py''], method = ''create_event'',
                     tool_description = ''Calendar'', tool_keywords = [''meeting'']\<rparr>"

text \<open>An environment in which the exit of the session raises.\<close>

definition broken_exit_env :: mcp_env where
  "broken_exit_env =
     \<lparr>op_outcome = (\<lambda>tr ev. if ev = SessionExit then Some (Exn RuntimeError ''broken pipe'')
                               else None),
      tool_outcome = (\<lambda>tr tool_name arguments.
                        Inr \<lparr>result_str = ''ok'', result_type = ''str''\<rparr>)\<rparr>"

text \<open>
  An answer of the external model that names a tool nobody registered, and a JSON parser
  that reads this answer and rejects every other text.
\<close>

definition weather_response :: string where
  "weather_response =
     ''{'' @ [CHR 0x22] @ ''selected_tool'' @ [CHR 0x22] @ '': ''
          @ [CHR 0x22] @ ''weather'' @ [CHR 0x22] @ ''}''"

definition weather_loads :: "string \<Rightarrow> json option" where
  "weather_loads s =
     (if s = weather_response then Some (JObj [(''selected_tool'', JStr ''weather'')]) else None)"

section \<open>Keyword matching\<close>

lemma str_in_sublist: "str_in sub s \<longleftrightarrow> sublist sub s"
  by (induction s) (auto simp: sublist_Cons_right)

lemma any_keyword_in_iff:
  "any_keyword_in kws (lower s) \<longleftrightarrow> spec_keyword_match kws s"
  by (induction kws) (auto simp: spec_keyword_match_def str_in_sublist)

lemma keyword_loop_first:
  "\<forall>(m, i) \<in> set pre. \<not> spec_keyword_match (keywords i) s \<Longrightarrow>
   spec_keyword_match (keywords info) s \<Longrightarrow>
   keyword_loop (pre @ (n, info) # post) (lower s) = Some n"
  by (induction pre) (auto simp: any_keyword_in_iff)

lemma keyword_loop_none:
  "\<forall>(m, i) \<in> set servers. \<not> spec_keyword_match (keywords i) s \<Longrightarrow>
   keyword_loop servers (lower s) = None"
  by (induction servers) (auto simp: any_keyword_in_iff)

lemma registry_keyword_loop_first:
  "\<forall>(m, i) \<in> set pre. \<not> spec_keyword_match (keywords i) s \<Longrightarrow>
   spec_keyword_match (keywords info) s \<Longrightarrow>
   registry_keyword_loop (map snd (pre @ (n, info) # post)) (lower s) = Some info"
  by (induction pre) (auto simp: any_keyword_in_iff)

lemma registry_keyword_loop_none:
  "\<forall>(m, i) \<in> set servers. \<not> spec_keyword_match (keywords i) s \<Longrightarrow>
   registry_keyword_loop (map snd servers) (lower s) = None"
  by (induction servers) (auto simp: any_keyword_in_iff)

lemma registry_name_loop_first:
  "\<forall>(m, i) \<in> set pre. \<not> sublist (lower m) (lower s) \<Longrightarrow>
   sublist (lower n) (lower s) \<Longrightarrow>
   registry_name_loop (pre @ (n, info) # post) (lower s) = Some info"
  by (induction pre) (auto simp: str_in_sublist)

lemma registry_name_loop_none:
  "\<forall>(m, i) \<in> set servers. \<not> sublist (lower m) (lower s) \<Longrightarrow>
   registry_name_loop servers (lower s) = None"
  by (induction servers) (auto simp: str_in_sublist)

text \<open>Evaluation of the specification's predicate on concrete strings.\<close>

lemma spec_keyword_match_code:
  "spec_keyword_match kws s = any_keyword_in kws (lower s)"
  by (simp add: any_keyword_in_iff)

lemma sublist_lower_code: "sublist (lower a) (lower b) = str_in (lower a) (lower b)"
  by (simp add: str_in_sublist)

text \<open>
  C8. Keyword matching is a case-insensitive substring test of each keyword against the
  text, and the first server in load order with a matching keyword is selected, by
  \<open>find_server_by_keywords\<close> of main.py (which returns its name) and by
  \<open>MCPRegistry.find_server_by_keywords\<close> (which returns its descriptor). In particular
  the server mailer with the keywords email and mail is selected for the text
  "please draft an email".
\<close>

theorem keyword_match_first_in_load_order:
  "(servers = pre @ (n, info) # post
      \<and> (\<forall>(m, i) \<in> set pre. \<not> spec_keyword_match (keywords i) s)
      \<and> spec_keyword_match (keywords info) s
    \<longrightarrow> find_server_by_keywords servers s = Some n)
   \<and> (rservers = rpre @ (rn, rinfo) # rpost
      \<and> (\<forall>(m, i) \<in> set rpre. \<not> spec_keyword_match (keywords i) s)
      \<and> spec_keyword_match (keywords rinfo) s
    \<longrightarrow> registry_find_server_by_keywords rservers s = Some rinfo)"
  by (simp add: find_server_by_keywords_def registry_find_server_by_keywords_def
        keyword_loop_first registry_keyword_loop_first del: map_append)

theorem keyword_match_mailer_witness:
  "spec_keyword_match (keywords mailer) ''please draft an email''
   \<and> find_server_by_keywords ([] @ (''mailer'', mailer) # [(''planner'', planner)])
        ''please draft an email'' = Some ''mailer''
   \<and> spec_keyword_match (keywords mailer_info) ''please draft an email''
   \<and> registry_find_server_by_keywords
        ([] @ (''mailer'', mailer_info) # [(''planner'', planner_info)])
        ''please draft an email'' = Some mailer_info"
proof -
  have h1: "spec_keyword_match (keywords mailer) ''please draft an email''"
    unfolding spec_keyword_match_code mailer_def by code_simp
  have h2: "spec_keyword_match (keywords mailer_info) ''please draft an email''"
    unfolding spec_keyword_match_code mailer_info_def mailer_def by code_simp
  show ?thesis
    using h1 h2
      keyword_match_first_in_load_order [of "[] @ (''mailer'', mailer) # [(''planner'', planner)]"
        "[]" "''mailer''" mailer "[(''planner'', planner)]" "''please draft an email''"
        "[] @ (''mailer'', mailer_info) # [(''planner'', planner_info)]"
        "[]" "''mailer''" mailer_info "[(''planner'', planner_info)]"]
    by simp
qed


text \<open>
  C2 (as stated). For a non-empty registry and a text that no keyword matches,
  \<open>find_server_by_keywords\<close> would return the first-loaded descriptor. The registry's
  method returns \<open>None\<close> for the registry holding mailer alone and the text "hello".
\<close>

theorem registry_first_server_fallback_counterexample:
  "[(''mailer'', mailer_info)] \<noteq> []
   \<and> \<not> spec_keyword_match (keywords mailer_info) ''hello''
   \<and> registry_find_server_by_keywords [(''mailer'', mailer_info)] ''hello'' = None"
  unfolding spec_keyword_match_code registry_find_server_by_keywords_def mailer_info_def mailer_def
  by code_simp

text \<open>
  C2 (amended). \<open>find_server_by_keywords\<close> of main.py returns the name of the
  first-loaded server when the server dict is not empty and no keyword matches the text,
  and \<open>None\<close> when the dict is empty; \<open>MCPRegistry.find_server_by_keywords\<close> returns
  \<open>None\<close> on an empty registry.
\<close>

theorem find_server_falls_back_to_first:
  "(servers = (n, info) # rest
      \<and> (\<forall>(m, i) \<in> set servers. \<not> spec_keyword_match (keywords i) s)
    \<longrightarrow> find_server_by_keywords servers s = Some n)
   \<and> find_server_by_keywords [] s = None
   \<and> registry_find_server_by_keywords [] s = None"
proof (intro conjI impI)
  assume a: "servers = (n, info) # rest
               \<and> (\<forall>(m, i) \<in> set servers. \<not> spec_keyword_match (keywords i) s)"
  then have "\<forall>(m, i) \<in> set servers. \<not> spec_keyword_match (keywords i) s"
    by (rule conjunct2)
  then have "keyword_loop servers (lower s) = None"
    by (rule keyword_loop_none)
  then have "find_server_by_keywords servers s =
               (case servers of [] \<Rightarrow> None | (server_name, server_info) # rest \<Rightarrow> Some server_name)"
    by (simp add: find_server_by_keywords_def)
  with a show "find_server_by_keywords servers s = Some n"
    by simp
next
  show "find_server_by_keywords [] s = None"
    by (simp add: find_server_by_keywords_def)
next
  show "registry_find_server_by_keywords [] s = None"
    by (simp add: registry_find_server_by_keywords_def)
qed

theorem find_server_falls_back_to_first_witness:
  "\<not> spec_keyword_match (keywords mailer) ''hello''
   \<and> \<not> spec_keyword_match (keywords planner) ''hello''
   \<and> find_server_by_keywords [(''mailer'', mailer), (''planner'', planner)] ''hello''
       = Some ''mailer''"
proof -
  have h1: "\<not> spec_keyword_match (keywords mailer) ''hello''"
    unfolding spec_keyword_match_code mailer_def by code_simp
  have h2: "\<not> spec_keyword_match (keywords planner) ''hello''"
    unfolding spec_keyword_match_code planner_def by code_simp
  show ?thesis
    using h1 h2 find_server_falls_back_to_first
      [of "[(''mailer'', mailer), (''planner'', planner)]" "''mailer''" mailer
          "[(''planner'', planner)]" "''hello''"]
    by simp
qed

text \<open>
  C10. When no keyword matches, \<open>MCPRegistry.find_server_by_keywords\<close> returns the first
  server in load order whose lower-cased name is a substring of the lower-cased text,
  and \<open>None\<close> when there is no such server, also for a registry that is not empty.
\<close>

theorem registry_falls_back_to_server_name:
  "(\<forall>(m, i) \<in> set servers. \<not> spec_keyword_match (keywords i) s) \<longrightarrow>
     (servers = pre @ (n, info) # post
        \<and> (\<forall>(m, i) \<in> set pre. \<not> sublist (lower m) (lower s))
        \<and> sublist (lower n) (lower s)
      \<longrightarrow> registry_find_server_by_keywords servers s = Some info)
     \<and> ((\<forall>(m, i) \<in> set servers. \<not> sublist (lower m) (lower s))
      \<longrightarrow> registry_find_server_by_keywords servers s = None)"
proof (intro conjI impI)
  assume k: "\<forall>(m, i) \<in> set servers. \<not> spec_keyword_match (keywords i) s"
  then have none: "registry_keyword_loop (map snd servers) (lower s) = None"
    by (rule registry_keyword_loop_none)
  {
    assume a: "servers = pre @ (n, info) # post
                 \<and> (\<forall>(m, i) \<in> set pre. \<not> sublist (lower m) (lower s))
                 \<and> sublist (lower n) (lower s)"
    then have "registry_name_loop servers (lower s) = Some info"
      by (simp add: registry_name_loop_first)
    with none show "registry_find_server_by_keywords servers s = Some info"
      by (simp add: registry_find_server_by_keywords_def)
  }
  {
    assume "\<forall>(m, i) \<in> set servers. \<not> sublist (lower m) (lower s)"
    then have "registry_name_loop servers (lower s) = None"
      by (rule registry_name_loop_none)
    with none show "registry_find_server_by_keywords servers s = None"
      by (simp add: registry_find_server_by_keywords_def)
  }
qed

theorem registry_falls_back_to_server_name_witness:
  "\<not> spec_keyword_match (keywords mailer_info) ''ask the Planner''
   \<and> \<not> spec_keyword_match (keywords planner_info) ''ask the Planner''
   \<and> \<not> sublist (lower ''mailer'') (lower ''ask the Planner'')
   \<and> sublist (lower ''planner'') (lower ''ask the Planner'')
   \<and> registry_find_server_by_keywords
        ([(''mailer'', mailer_info)] @ (''planner'', planner_info) # []) ''ask the Planner''
       = Some planner_info
   \<and> \<not> spec_keyword_match (keywords mailer_info) ''hello''
   \<and> \<not> spec_keyword_match (keywords planner_info) ''hello''
   \<and> \<not> sublist (lower ''mailer'') (lower ''hello'')
   \<and> \<not> sublist (lower ''planner'') (lower ''hello'')
   \<and> registry_find_server_by_keywords
        [(''mailer'', mailer_info), (''planner'', planner_info)] ''hello'' = None"
proof -
  let ?servers = "[(''mailer'', mailer_info), (''planner'', planner_info)]"
  have k1: "\<not> spec_keyword_match (keywords mailer_info) ''ask the Planner''"
    unfolding spec_keyword_match_code mailer_info_def mailer_def by code_simp
  have k2: "\<not> spec_keyword_match (keywords planner_info) ''ask the Planner''"
    unfolding spec_keyword_match_code planner_info_def planner_def by code_simp
  have k3: "\<not> spec_keyword_match (keywords mailer_info) ''hello''"
    unfolding spec_keyword_match_code mailer_info_def mailer_def by code_simp
  have k4: "\<not> spec_keyword_match (keywords planner_info) ''hello''"
    unfolding spec_keyword_match_code planner_info_def planner_def by code_simp
  have n1: "\<not> sublist (lower ''mailer'') (lower ''ask the Planner'')"
    unfolding sublist_lower_code by code_simp
  have n2: "sublist (lower ''planner'') (lower ''ask the Planner'')"
    unfolding sublist_lower_code by code_simp
  have n3: "\<not> sublist (lower ''mailer'') (lower ''hello'')"
    unfolding sublist_lower_code by code_simp
  have n4: "\<not> sublist (lower ''planner'') (lower ''hello'')"
    unfolding sublist_lower_code by code_simp
  show ?thesis
    using k1 k2 k3 k4 n1 n2 n3 n4
      registry_falls_back_to_server_name [of ?servers "''ask the Planner''"
        "[(''mailer'', mailer_info)]" "''planner''" planner_info "[]"]
      registry_falls_back_to_server_name [of ?servers "''hello''"
        "[(''mailer'', mailer_info)]" "''planner''" planner_info "[]"]
    by simp
qed

section \<open>Loading and reloading\<close>

lemma load_config_returns: "fst (load_config src servers) = Inr ()"
  by (simp add: load_config_def split: prod.splits sum.splits)

lemma load_mcp_config_returns: "fst (load_mcp_config src servers) = Inr ()"
  by (simp add: load_mcp_config_def split: prod.splits sum.splits)

lemma load_config_rejected: "source_rejected src \<Longrightarrow> snd (load_config src servers) = servers"
  by (induction src rule: source_rejected.induct) (simp_all add: load_config_def)

lemma load_mcp_config_rejected:
  "source_rejected src \<Longrightarrow> snd (load_mcp_config src servers) = servers"
  by (induction src rule: source_rejected.induct) (simp_all add: load_mcp_config_def)

text \<open>
  \<open>load_mcp_config\<close> never removes a server, while the registry's reload does not
  depend on the descriptors it held before and, for a configuration of loadable entries,
  ends with the names of that configuration.
\<close>

lemma load_server_keeps_names:
  "load_server servers x = Inr servers' \<Longrightarrow> fst ` set servers \<subseteq> fst ` set servers'"
proof -
  obtain server_name e where x: "x = (server_name, e)" by (cases x)
  assume "load_server servers x = Inr servers'"
  with x show ?thesis
    by (cases e) (force simp: Let_def dom_update split: sum.splits)+
qed

lemma load_all_keeps_names: "fst ` set servers \<subseteq> fst ` set (snd (load_all servers xs))"
proof (induction xs arbitrary: servers)
  case Nil
  then show ?case by simp
next
  case (Cons x xs)
  show ?case
  proof (cases "load_server servers x")
    case (Inl e)
    then show ?thesis by simp
  next
    case (Inr servers')
    then show ?thesis
      using load_server_keeps_names [OF Inr] Cons.IH [of servers'] by auto
  qed
qed

lemma load_mcp_config_keeps_names:
  "fst ` set servers \<subseteq> fst ` set (snd (load_mcp_config src servers))"
proof -
  have "fst ` set servers \<subseteq> fst ` set (snd (load_mcp_config_body src servers))"
    by (induction src servers rule: load_mcp_config_body.induct)
      (simp_all add: load_all_keeps_names)
  moreover obtain r servers' where "load_mcp_config_body src servers = (r, servers')"
    by (cases "load_mcp_config_body src servers")
  ultimately show ?thesis
    by (cases r) (simp_all add: load_mcp_config_def)
qed

lemma register_all_names:
  "list_all (entry_loadable \<circ> snd) es \<Longrightarrow>
   fst ` set (snd (register_all servers es)) = fst ` set servers \<union> fst ` set es"
proof (induction es arbitrary: servers)
  case Nil
  then show ?case by simp
next
  case (Cons x es)
  obtain server_name e where x: "x = (server_name, e)" by (cases x)
  with Cons.prems obtain c a d k where e: "e = Entry c a d k"
    by (cases e) auto
  from Cons.prems x e obtain servers' where
    r: "register_server servers x = Inr servers'"
    and n: "fst ` set servers' = insert server_name (fst ` set servers)"
    by (auto simp: MCPClient_init_def Let_def dom_update split: option.splits)
  from Cons.prems have "list_all (entry_loadable \<circ> snd) es" by (simp add: comp_def)
  then have "fst ` set (snd (register_all servers' es)) = fst ` set servers' \<union> fst ` set es"
    by (rule Cons.IH)
  with r n x show ?case by auto
qed

lemma reload_config_names:
  "list_all (entry_loadable \<circ> snd) es \<Longrightarrow>
   fst ` set (snd (reload_config (FileJson (DocObject (Some (ServersObject es)))) servers))
     = fst ` set es"
proof -
  assume "list_all (entry_loadable \<circ> snd) es"
  then have "fst ` set (snd (register_all [] es)) = fst ` set es"
    using register_all_names [of es "[]"] by simp
  moreover obtain r servers' where "register_all [] es = (r, servers')"
    by (cases "register_all [] es")
  ultimately show ?thesis
    by (cases r) (simp_all add: reload_config_def load_config_def)
qed


lemma reload_config_ignores_old: "reload_config src servers = reload_config src servers'"
  by (simp add: reload_config_def)

text \<open>
  C3. A reload followed by a listing is to return exactly the descriptors of the new
  configuration. The reload of main.py, at a dict holding mailer and a new configuration
  that names planner alone, lists both servers.
\<close>

theorem reload_lists_old_and_new:
  "map fst (snd (load_mcp_config planner_config [(''mailer'', mailer)]))
     = [''mailer'', ''planner'']"
  by (simp add: load_mcp_config_def planner_config_def MCPClient_init_def Let_def)

text \<open>
  C5 (as stated). Load would fail with an error on an absent or malformed source, and a
  failed reload would leave the prior descriptors in place. With the configuration file
  missing, \<open>load_config\<close> returns normally, and \<open>reload_config\<close> on a registry holding
  mailer returns normally with the registry empty.
\<close>

theorem load_failure_counterexample:
  "fst (load_config FileMissing [(''mailer'', mailer_info)]) = Inr ()
   \<and> fst (load_config (FileUndecodable ''Expecting value'') [(''mailer'', mailer_info)]) = Inr ()
   \<and> fst (reload_config FileMissing [(''mailer'', mailer_info)]) = Inr ()
   \<and> snd (reload_config FileMissing [(''mailer'', mailer_info)]) = []
   \<and> [(''mailer'', mailer_info)] \<noteq> []"
  by (simp add: load_config_def reload_config_def)

text \<open>
  C5 (amended). Loading never fails: \<open>load_config\<close>, \<open>load_mcp_config\<close> and
  \<open>reload_config\<close> return normally for every source. When the source is absent or
  rejected before any entry is read, \<open>load_config\<close> and \<open>load_mcp_config\<close> leave the
  descriptors they were called on unchanged, so the reload of main.py (\<open>load_mcp_config\<close>
  on the dict as it stands) leaves the prior descriptors in place.
\<close>

theorem load_never_fails:
  "fst (load_config src servers) = Inr ()
   \<and> fst (load_mcp_config src mservers) = Inr ()
   \<and> fst (reload_config src servers) = Inr ()
   \<and> (source_rejected src \<longrightarrow>
        snd (load_config src servers) = servers
        \<and> snd (load_mcp_config src mservers) = mservers)"
  by (simp add: load_config_returns load_mcp_config_returns load_config_rejected
        load_mcp_config_rejected reload_config_def)

theorem load_never_fails_witness:
  "source_rejected (FileUndecodable ''Expecting value'')
   \<and> load_config (FileUndecodable ''Expecting value'') [(''mailer'', mailer_info)]
       = (Inr (), [(''mailer'', mailer_info)])
   \<and> load_mcp_config (FileUndecodable ''Expecting value'') [(''mailer'', mailer)]
       = (Inr (), [(''mailer'', mailer)])"
  using load_never_fails [of "FileUndecodable ''Expecting value''"
      "[(''mailer'', mailer_info)]" "[(''mailer'', mailer)]"]
  by (simp add: prod_eq_iff)

section \<open>Closing a session\<close>

lemma aexit_returns: "fst (aexit env c tr) = Inr ()"
  by (simp add: aexit_def split: prod.splits sum.splits)

lemma aexit_unopened:
  "session c = None \<Longrightarrow> client_ctx c = None \<Longrightarrow> aexit env c tr = (Inr (), tr)"
  by (simp add: aexit_def aexit_body_def)

text \<open>
  C9 (as stated). A second close in sequence would be a no-op. \<open>__aexit__\<close> leaves
  \<open>session\<close> and \<open>_client_ctx\<close> set, so on an opened client a second \<open>__aexit__\<close>
  calls the exits of the session and of the transport once more.
\<close>

theorem second_close_counterexample:
  "snd (aexit quiet_env opened_client []) = [SessionExit, TransportExit]
   \<and> snd (aexit quiet_env opened_client (snd (aexit quiet_env opened_client [])))
       = [SessionExit, TransportExit, SessionExit, TransportExit]"
  by (simp add: aexit_def aexit_body_def perform_def quiet_env_def opened_client_def
        example_client_def)

text \<open>
  C9 (amended). \<open>__aexit__\<close> never raises, whatever the state of the client and whatever
  the library does: an exception of the teardown is caught and logged. On a client that
  was never opened it does nothing. A second \<open>__aexit__\<close> in sequence does not raise
  either; it is not a no-op of its own, it calls the exits again on whatever is still
  set.
\<close>

theorem close_never_raises:
  "fst (aexit env c tr) = Inr ()
   \<and> fst (aexit env c (snd (aexit env c tr))) = Inr ()
   \<and> (session c = None \<and> client_ctx c = None \<longrightarrow> aexit env c tr = (Inr (), tr))
   \<and> (aexit_body env c tr = (Inl e, tr1) \<longrightarrow>
        aexit env c tr = (Inr (), tr1 @ [LogError (''Error closing MCP client: '' @ str_exn e)]))"
  by (simp add: aexit_returns aexit_unopened) (simp add: aexit_def)

theorem close_never_raises_witness:
  "aexit_body broken_exit_env opened_client []
     = (Inl (Exn RuntimeError ''broken pipe''), [SessionExit])
   \<and> aexit broken_exit_env opened_client []
       = (Inr (), [SessionExit, LogError ''Error closing MCP client: broken pipe''])
   \<and> session (example_client [''mailer.py'']) = None
   \<and> client_ctx (example_client [''mailer.py'']) = None
   \<and> aexit broken_exit_env (example_client [''mailer.py'']) [] = (Inr (), [])"
proof -
  have b: "aexit_body broken_exit_env opened_client []
             = (Inl (Exn RuntimeError ''broken pipe''), [SessionExit])"
    by (simp add: aexit_body_def perform_def broken_exit_env_def opened_client_def
          example_client_def)
  have u: "session (example_client [''mailer.py'']) = None
             \<and> client_ctx (example_client [''mailer.py'']) = None"
    by (simp add: example_client_def)
  show ?thesis
    using b u
      close_never_raises [of broken_exit_env opened_client "[]"
        "Exn RuntimeError ''broken pipe''" "[SessionExit]"]
      close_never_raises [of broken_exit_env "example_client [''mailer.py'']" "[]"
        "Exn RuntimeError ''broken pipe''" "[SessionExit]"]
    by simp
qed

section \<open>The orchestrator\<close>

lemma call_mcp_server_failure:
  "map_of servers server_name = Some server_info \<Longrightarrow>
   scoped_call_tool env (client server_info) tool_name arguments tr = (Inl e, tr1) \<Longrightarrow>
   call_mcp_server env servers server_name tool_name arguments tr =
     (Inr (JObj [(''success'', JBool False),
                 (''server_name'', JStr server_name),
                 (''tool_name'', JStr tool_name),
                 (''error'', JStr (str_exn e)),
                 (''server_info'', server_info_json server_info)]),
      tr1 @ [LogError (''MCP call failed: '' @ str_exn e)])"
  by (simp add: call_mcp_server_def)

lemma call_mcp_server_known:
  assumes "map_of servers server_name = Some server_info"
  shows "\<exists>r tr2 b. call_mcp_server env servers server_name tool_name arguments tr
                      = (Inr (JObj r), tr2) \<and> map_of r ''success'' = Some (JBool b)"
proof (cases "scoped_call_tool env (client server_info) tool_name arguments tr")
  case (Pair x tr1)
  then show ?thesis
    using assms by (cases x) (auto simp: call_mcp_server_def)
qed

lemma keyword_loop_key: "keyword_loop servers t = Some n \<Longrightarrow> n \<in> fst ` set servers"
  by (induction servers t rule: keyword_loop.induct) (auto split: if_splits)

lemma find_server_by_keywords_key:
  assumes "find_server_by_keywords servers u = Some n"
  shows "\<exists>server_info. map_of servers n = Some server_info"
proof -
  have "n \<in> fst ` set servers"
    using assms keyword_loop_key [of servers "lower u" n]
    by (auto simp: find_server_by_keywords_def split: option.splits list.splits)
  then show ?thesis
    by (cases "map_of servers n") (auto simp: map_of_eq_None_iff)
qed

lemma no_servers_available_success:
  "\<exists>r b. no_servers_available servers = JObj r \<and> map_of r ''success'' = Some (JBool b)"
  by (auto simp: no_servers_available_def)

lemma do_task_body_returns:
  assumes "do_task_body env servers request tr = (Inr v, tr2)"
  shows "\<exists>r b. v = JObj r \<and> map_of r ''success'' = Some (JBool b)"
proof (cases "request_user_request request")
  case (Inl e)
  with assms show ?thesis by (simp add: do_task_body_def)
next
  case (Inr w)
  show ?thesis
  proof (cases w)
    case (JStr u)
    show ?thesis
    proof (cases "find_server_by_keywords servers u")
      case None
      with assms Inr JStr have "v = no_servers_available servers"
        by (simp add: do_task_body_def)
      then show ?thesis
        using no_servers_available_success [of servers] by blast
    next
      case (Some n)
      show ?thesis
      proof (cases "n = []")
        case True
        with assms Inr JStr Some have "v = no_servers_available servers"
          by (simp add: do_task_body_def)
        then show ?thesis
          using no_servers_available_success [of servers] by blast
      next
        case False
        obtain server_info where "map_of servers n = Some server_info"
          using Some find_server_by_keywords_key by blast
        then obtain r tr3 b where
          "call_mcp_server env servers n ''generate_email_draft'' (do_task_arguments u) tr
             = (Inr (JObj r), tr3)" and "map_of r ''success'' = Some (JBool b)"
          using call_mcp_server_known by blast
        with assms Inr JStr Some False show ?thesis
          by (auto simp: do_task_body_def)
      qed
    qed
  qed (use assms Inr in \<open>simp_all add: do_task_body_def\<close>)
qed

lemma do_task_returns:
  "\<exists>r tr2 b. do_task env servers request tr = (Inr (JObj r), tr2)
              \<and> map_of r ''success'' = Some (JBool b)"
proof (cases "do_task_body env servers request tr")
  case (Pair x tr1)
  show ?thesis
  proof (cases x)
    case (Inl e)
    with Pair show ?thesis by (auto simp: do_task_def)
  next
    case (Inr v)
    with Pair do_task_body_returns [of env servers request tr v tr1]
    show ?thesis by (auto simp: do_task_def)
  qed
qed

text \<open>
  C1. An exception that leaves the session block (raised on entry or by the tool call;
  \<open>__aexit__\<close> catches those of the exit itself) is caught by \<open>call_mcp_server\<close> and
  returned as a mapping with
  \<open>success = False\<close>, the server name, the tool name and the error text; \<open>do_task\<close>
  hands this mapping on for the server it selected, and itself always returns a mapping
  with a \<open>success\<close> field: no exception leaves it.
\<close>

theorem session_failure_is_structured:
  "(map_of servers server_name = Some server_info
      \<and> scoped_call_tool env (client server_info) tool_name arguments tr = (Inl e, tr1)
    \<longrightarrow> (\<exists>r tr2. call_mcp_server env servers server_name tool_name arguments tr
                    = (Inr (JObj r), tr2)
           \<and> map_of r ''success'' = Some (JBool False)
           \<and> map_of r ''server_name'' = Some (JStr server_name)
           \<and> map_of r ''tool_name'' = Some (JStr tool_name)
           \<and> map_of r ''error'' = Some (JStr (str_exn e))))
   \<and> (\<exists>r tr2 b. do_task env servers request tr = (Inr (JObj r), tr2)
           \<and> map_of r ''success'' = Some (JBool b))
   \<and> (request_user_request request = Inr (JStr u)
      \<and> find_server_by_keywords servers u = Some n \<and> n \<noteq> []
      \<and> map_of servers n = Some info
      \<and> scoped_call_tool env (client info) ''generate_email_draft'' (do_task_arguments u) tr
          = (Inl e', tr1')
    \<longrightarrow> (\<exists>r tr2. do_task env servers request tr = (Inr (JObj r), tr2)
           \<and> map_of r ''success'' = Some (JBool False)
           \<and> map_of r ''server_name'' = Some (JStr n)
           \<and> map_of r ''tool_name'' = Some (JStr ''generate_email_draft'')
           \<and> map_of r ''error'' = Some (JStr (str_exn e'))))"
proof (intro conjI impI)
  assume "map_of servers server_name = Some server_info
            \<and> scoped_call_tool env (client server_info) tool_name arguments tr = (Inl e, tr1)"
  then show "\<exists>r tr2. call_mcp_server env servers server_name tool_name arguments tr
                       = (Inr (JObj r), tr2)
               \<and> map_of r ''success'' = Some (JBool False)
               \<and> map_of r ''server_name'' = Some (JStr server_name)
               \<and> map_of r ''tool_name'' = Some (JStr tool_name)
               \<and> map_of r ''error'' = Some (JStr (str_exn e))"
    by (simp add: call_mcp_server_failure)
next
  show "\<exists>r tr2 b. do_task env servers request tr = (Inr (JObj r), tr2)
              \<and> map_of r ''success'' = Some (JBool b)"
    by (rule do_task_returns)
next
  assume a: "request_user_request request = Inr (JStr u)
      \<and> find_server_by_keywords servers u = Some n \<and> n \<noteq> []
      \<and> map_of servers n = Some info
      \<and> scoped_call_tool env (client info) ''generate_email_draft'' (do_task_arguments u) tr
          = (Inl e', tr1')"
  then have "do_task_body env servers request tr =
               call_mcp_server env servers n ''generate_email_draft'' (do_task_arguments u) tr"
    by (simp add: do_task_body_def)
  with a show "\<exists>r tr2. do_task env servers request tr = (Inr (JObj r), tr2)
           \<and> map_of r ''success'' = Some (JBool False)
           \<and> map_of r ''server_name'' = Some (JStr n)
           \<and> map_of r ''tool_name'' = Some (JStr ''generate_email_draft'')
           \<and> map_of r ''error'' = Some (JStr (str_exn e'))"
    by (simp add: do_task_def call_mcp_server_failure)
qed

theorem session_failure_is_structured_witness:
  "map_of [(''mailer'', mailer)] ''mailer'' = Some mailer
   \<and> scoped_call_tool stalled_env (client mailer) ''generate_email_draft''
        (do_task_arguments ''please draft an email'') []
       = (Inl (Exn TimeoutError ''timed out''),
          [TransportEnter, LogError ''Failed to initialize MCP client: timed out'',
           TransportExit])
   \<and> request_user_request [(''user_request'', JStr ''please draft an email'')]
       = Inr (JStr ''please draft an email'')
   \<and> find_server_by_keywords [(''mailer'', mailer)] ''please draft an email'' = Some ''mailer''
   \<and> (\<exists>r tr2. call_mcp_server stalled_env [(''mailer'', mailer)] ''mailer''
                   ''generate_email_draft'' (do_task_arguments ''please draft an email'') []
                  = (Inr (JObj r), tr2)
          \<and> map_of r ''success'' = Some (JBool False)
          \<and> map_of r ''server_name'' = Some (JStr ''mailer'')
          \<and> map_of r ''tool_name'' = Some (JStr ''generate_email_draft'')
          \<and> map_of r ''error'' = Some (JStr ''timed out''))
   \<and> (\<exists>r tr2. do_task stalled_env [(''mailer'', mailer)]
                   [(''user_request'', JStr ''please draft an email'')] []
                  = (Inr (JObj r), tr2)
          \<and> map_of r ''success'' = Some (JBool False)
          \<and> map_of r ''server_name'' = Some (JStr ''mailer'')
          \<and> map_of r ''tool_name'' = Some (JStr ''generate_email_draft'')
          \<and> map_of r ''error'' = Some (JStr ''timed out''))"
proof -
  let ?servers = "[(''mailer'', mailer)]"
  let ?request = "[(''user_request'', JStr ''please draft an email'')]"
  let ?args = "do_task_arguments ''please draft an email''"
  let ?e = "Exn TimeoutError ''timed out''"
  let ?tr1 = "[TransportEnter, LogError ''Failed to initialize MCP client: timed out'',
               TransportExit]"
  have h1: "map_of ?servers ''mailer'' = Some mailer"
    by simp
  have h2: "scoped_call_tool stalled_env (client mailer) ''generate_email_draft'' ?args []
              = (Inl ?e, ?tr1)"
    by (simp add: scoped_call_tool_def aenter_def aenter_handler_def perform_def
          stalled_env_def mailer_def example_client_def)
  have h3: "request_user_request ?request = Inr (JStr ''please draft an email'')"
    by (simp add: request_user_request_def)
  have h4: "find_server_by_keywords ?servers ''please draft an email'' = Some ''mailer''"
    by code_simp
  have h5: "''mailer'' \<noteq> []"
    by simp
  show ?thesis
    using h1 h2 h3 h4 h5
      session_failure_is_structured [of ?servers "''mailer''" mailer stalled_env
        "''generate_email_draft''" ?args "[]" ?e ?tr1 ?request "''please draft an email''"
        "''mailer''" mailer ?e ?tr1]
    by simp
qed

section \<open>The tool selector\<close>

lemma generate_fallback_arguments_str:
  "user_request_is_str input_data \<Longrightarrow> \<exists>a. generate_fallback_arguments input_data = Inr a"
  by (auto simp: user_request_is_str_def generate_fallback_arguments_def Let_def
        split: option.splits json.splits)

lemma generate_fallback_arguments_response:
  "\<exists>a. generate_fallback_arguments [(''response'', JStr resp)] = Inr a"
  by (simp add: generate_fallback_arguments_def)

lemma fallback_selection_tool:
  "fallback_selection input_data = Inr (t, a) \<Longrightarrow> t = ''email_draft''"
  by (auto simp: fallback_selection_def split: sum.splits)

lemma validate_selection_tool:
  "validate_selection tools input_data sel = Inr (t, a) \<Longrightarrow>
   t \<in> fst ` set tools \<or> t = ''email_draft''"
  by (auto simp: validate_selection_def split: prod.splits json.splits sum.splits if_splits)

lemma llm_select_body_tool:
  "llm_select_body loads llm tools input_data = Inr (t, a) \<Longrightarrow>
   t \<in> fst ` set tools \<or> t = ''email_draft''"
  by (auto simp: llm_select_body_def split: sum.splits dest: validate_selection_tool)

text \<open>
  C4 (as stated). The selector would never return a tool name that is not registered.
  With the calendar tool alone registered and an answer of the model that selects the
  unknown tool weather, the selector returns \<open>email_draft\<close>, which is not registered.
\<close>

theorem unregistered_default_counterexample:
  "select_tool_and_generate_args weather_loads (Inr (Some weather_response))
     [(''calendar'', calendar_tool)] [(''user_request'', JStr ''hello'')]
     = Inr (''email_draft'',
            JObj [(''original_email'', JStr ''hello''),
                  (''tone'', JStr ''professional''),
                  (''context'', JObj [(''reply_type'', JStr ''reply''),
                                      (''urgency'', JStr ''normal'')])])
   \<and> ''email_draft'' \<notin> fst ` set [(''calendar'', calendar_tool)]"
proof -
  have "select_tool_and_generate_args weather_loads (Inr (Some weather_response))
     [(''calendar'', calendar_tool)] [(''user_request'', JStr ''hello'')]
     = Inr (''email_draft'',
            JObj [(''original_email'', JStr ''hello''),
                  (''tone'', JStr ''professional''),
                  (''context'', JObj [(''reply_type'', JStr ''reply''),
                                      (''urgency'', JStr ''normal'')])])"
    by code_simp
  then show ?thesis by simp
qed

text \<open>
  C4 (amended). Whatever the model answers, a tool name that the selector returns is a
  registered tool name or the fixed default \<open>email_draft\<close>: an unknown selected tool is
  replaced by \<open>email_draft\<close>. So the selector returns registered names only when
  \<open>email_draft\<close> is registered.
\<close>

theorem selected_tool_registered_or_default:
  "(select_tool_and_generate_args loads llm tools input_data = Inr (t, a)
      \<longrightarrow> t \<in> fst ` set tools \<or> t = ''email_draft'')
   \<and> (select_tool_and_generate_args loads llm tools input_data = Inr (t, a)
        \<and> ''email_draft'' \<in> fst ` set tools
      \<longrightarrow> t \<in> fst ` set tools)"
proof -
  have "t \<in> fst ` set tools \<or> t = ''email_draft''"
    if "select_tool_and_generate_args loads llm tools input_data = Inr (t, a)"
  proof (cases "llm_select_body loads llm tools input_data")
    case (Inl e)
    with that show ?thesis
      by (simp add: select_tool_and_generate_args_def llm_select_and_generate_def
            fallback_selection_tool)
  next
    case (Inr r)
    with that show ?thesis
      using llm_select_body_tool [of loads llm tools input_data t a]
      by (simp add: select_tool_and_generate_args_def llm_select_and_generate_def)
  qed
  then show ?thesis by blast
qed

theorem selected_tool_registered_or_default_witness:
  "select_tool_and_generate_args weather_loads (Inr (Some weather_response))
     [(''email_draft'', calendar_tool)] [(''user_request'', JStr ''hello'')]
     = Inr (''email_draft'',
            JObj [(''original_email'', JStr ''hello''),
                  (''tone'', JStr ''professional''),
                  (''context'', JObj [(''reply_type'', JStr ''reply''),
                                      (''urgency'', JStr ''normal'')])])
   \<and> ''email_draft'' \<in> fst ` set [(''email_draft'', calendar_tool)]"
proof -
  let ?a = "JObj [(''original_email'', JStr ''hello''),
                  (''tone'', JStr ''professional''),
                  (''context'', JObj [(''reply_type'', JStr ''reply''),
                                      (''urgency'', JStr ''normal'')])]"
  have h: "select_tool_and_generate_args weather_loads (Inr (Some weather_response))
             [(''email_draft'', calendar_tool)] [(''user_request'', JStr ''hello'')]
             = Inr (''email_draft'', ?a)"
    by code_simp
  show ?thesis
    using h selected_tool_registered_or_default [of weather_loads "Inr (Some weather_response)"
        "[(''email_draft'', calendar_tool)]" "[(''user_request'', JStr ''hello'')]"
        "''email_draft''" ?a]
    by simp
qed

lemma select_on_failure:
  "llm_select_body loads llm tools input_data = Inl e \<Longrightarrow>
   select_tool_and_generate_args loads llm tools input_data = fallback_selection input_data"
  by (simp add: select_tool_and_generate_args_def llm_select_and_generate_def)

lemma fallback_selection_str:
  assumes "user_request_is_str input_data"
  shows "\<exists>a. generate_fallback_arguments input_data = Inr a
              \<and> fallback_selection input_data = Inr (''email_draft'', a)"
proof -
  obtain a where "generate_fallback_arguments input_data = Inr a"
    using assms generate_fallback_arguments_str by blast
  then show ?thesis
    by (simp add: fallback_selection_def)
qed

lemma generate_fallback_arguments_request:
  "map_of input_data ''user_request'' = Some (JStr u) \<Longrightarrow>
   generate_fallback_arguments input_data =
     Inr (JObj [(''original_email'', JStr (or_user_request (extract_original_email u))),
                (''tone'', JStr (detect_tone u)),
                (''context'',
                   JObj [(''reply_type'', JStr ''reply''),
                         (''urgency'',
                            JStr (if detect_tone u = ''urgent'' then ''high'' else ''normal''))])])"
  by (simp add: generate_fallback_arguments_def Let_def)

lemma generate_fallback_arguments_legacy:
  "map_of input_data ''user_request'' = None \<Longrightarrow>
   generate_fallback_arguments input_data =
     Inr (JObj [(''original_email'', JStr (or_user_request (strip (text_content input_data)))),
                (''tone'', JStr ''professional''),
                (''context'', JObj [(''reply_type'', JStr ''reply''),
                                    (''urgency'', JStr ''normal'')])])"
  by (simp add: generate_fallback_arguments_def)

lemma select_on_not_json:
  assumes "loads (strip resp) = None"
  shows "select_tool_and_generate_args loads (Inr (Some resp)) tools input_data =
           (case scan_tool_names (map fst tools) (lower resp) of
              Some tool_name \<Rightarrow>
                (if tool_name \<in> set (map fst tools)
                 then Inr (tool_name,
                           JObj [(''original_email'', JStr (or_user_request (strip (resp @ '' '')))),
                                 (''tone'', JStr ''professional''),
                                 (''context'', JObj [(''reply_type'', JStr ''reply''),
                                                     (''urgency'', JStr ''normal'')])])
                 else fallback_selection input_data)
            | None \<Rightarrow>
                (if ''email_draft'' \<in> set (map fst tools)
                 then Inr (''email_draft'',
                           JObj [(''original_email'', JStr (or_user_request (strip (resp @ '' '')))),
                                 (''tone'', JStr ''professional''),
                                 (''context'', JObj [(''reply_type'', JStr ''reply''),
                                                     (''urgency'', JStr ''normal'')])])
                 else fallback_selection input_data))"
proof -
  let ?a = "JObj [(''original_email'', JStr (or_user_request (strip (resp @ '' '')))),
                  (''tone'', JStr ''professional''),
                  (''context'', JObj [(''reply_type'', JStr ''reply''),
                                      (''urgency'', JStr ''normal'')])]"
  define tn where "tn = (case scan_tool_names (map fst tools) (lower resp) of
                           Some tool_name \<Rightarrow> tool_name | None \<Rightarrow> ''email_draft'')"
  have g: "generate_fallback_arguments [(''response'', JStr resp)] = Inr ?a"
    by (simp add: generate_fallback_arguments_def)
  have p: "parse_llm_response loads tools (Some resp) = Inr (JStr tn, ?a)"
    using assms g by (simp add: parse_llm_response_def tn_def)
  have s: "select_tool_and_generate_args loads (Inr (Some resp)) tools input_data =
             (if tn \<in> set (map fst tools) then Inr (tn, ?a) else fallback_selection input_data)"
  proof (cases "tn \<in> set (map fst tools)")
    case True
    then show ?thesis
      using p by (simp add: select_tool_and_generate_args_def llm_select_and_generate_def
            llm_select_body_def validate_selection_def)
  next
    case False
    then show ?thesis
      using p
      by (cases "generate_fallback_arguments input_data")
        (simp_all add: select_tool_and_generate_args_def llm_select_and_generate_def
          llm_select_body_def validate_selection_def fallback_selection_def)
  qed
  show ?thesis
    unfolding s tn_def by (simp split: option.splits)
qed

text \<open>
  C6 (as stated). For every input payload a failure of the external model would end in
  a returned fallback selection. For the payload \<open>{"user_request": 5}\<close> and a call of
  the model that times out, the handler's own \<open>_fallback_selection\<close> raises
  \<open>TypeError\<close> (\<open>pattern in user_request\<close> on an int), and the selector returns
  nothing.
\<close>

theorem fallback_raises_counterexample:
  "select_tool_and_generate_args weather_loads (Inl (Exn TimeoutError ''timed out''))
     [(''calendar'', calendar_tool)] [(''user_request'', JNum 5)]
     = Inl (Exn TypeError (''argument of type '' @ [CHR 0x27] @ ''int'' @ [CHR 0x27]
                           @ '' is not iterable''))"
  by code_simp

text \<open>
  C6 (amended). For every input payload whose \<open>user_request\<close> is a string, or that has
  no \<open>user_request\<close>: when the call of the external model raises, or its answer cannot
  be parsed into a selection, \<open>select_tool_and_generate_args\<close> raises nothing and
  returns the deterministic fallback selection, the tool \<open>email_draft\<close> with the
  arguments that the heuristics derive from the payload. For every payload, the outcome
  of such a failure is the outcome of \<open>_fallback_selection\<close>, and an answer that is not
  JSON yields the first tool name found in the answer (or \<open>email_draft\<close>), when it is
  registered, with arguments derived from the answer, and the outcome of
  \<open>_fallback_selection\<close> otherwise.
\<close>

theorem llm_failure_degrades_to_fallback:
  "((llm = Inl e \<or> (llm = Inr response \<and> parse_llm_response loads tools response = Inl e))
      \<longrightarrow> select_tool_and_generate_args loads llm tools input_data
            = fallback_selection input_data)
   \<and> (map_of input_data ''user_request'' = Some (JStr u)
      \<longrightarrow> fallback_selection input_data =
            Inr (''email_draft'',
                 JObj [(''original_email'', JStr (or_user_request (extract_original_email u))),
                       (''tone'', JStr (detect_tone u)),
                       (''context'',
                          JObj [(''reply_type'', JStr ''reply''),
                                (''urgency'',
                                   JStr (if detect_tone u = ''urgent'' then ''high''
                                         else ''normal''))])]))
   \<and> (map_of input_data ''user_request'' = None
      \<longrightarrow> fallback_selection input_data =
            Inr (''email_draft'',
                 JObj [(''original_email'',
                          JStr (or_user_request (strip (text_content input_data)))),
                       (''tone'', JStr ''professional''),
                       (''context'', JObj [(''reply_type'', JStr ''reply''),
                                           (''urgency'', JStr ''normal'')])]))
   \<and> (llm = Inr (Some resp) \<and> loads (strip resp) = None
      \<longrightarrow> select_tool_and_generate_args loads llm tools input_data =
            (case scan_tool_names (map fst tools) (lower resp) of
               Some tool_name \<Rightarrow>
                 (if tool_name \<in> set (map fst tools)
                  then Inr (tool_name,
                            JObj [(''original_email'',
                                     JStr (or_user_request (strip (resp @ '' '')))),
                                  (''tone'', JStr ''professional''),
                                  (''context'', JObj [(''reply_type'', JStr ''reply''),
                                                      (''urgency'', JStr ''normal'')])])
                  else fallback_selection input_data)
             | None \<Rightarrow>
                 (if ''email_draft'' \<in> set (map fst tools)
                  then Inr (''email_draft'',
                            JObj [(''original_email'',
                                     JStr (or_user_request (strip (resp @ '' '')))),
                                  (''tone'', JStr ''professional''),
                                  (''context'', JObj [(''reply_type'', JStr ''reply''),
                                                      (''urgency'', JStr ''normal'')])])
                  else fallback_selection input_data)))"
proof (intro conjI impI)
  assume "llm = Inl e \<or> (llm = Inr response \<and> parse_llm_response loads tools response = Inl e)"
  then have "llm_select_body loads llm tools input_data = Inl e"
    by (auto simp: llm_select_body_def)
  then show "select_tool_and_generate_args loads llm tools input_data
               = fallback_selection input_data"
    by (rule select_on_failure)
next
  assume "map_of input_data ''user_request'' = Some (JStr u)"
  then show "fallback_selection input_data =
            Inr (''email_draft'',
                 JObj [(''original_email'', JStr (or_user_request (extract_original_email u))),
                       (''tone'', JStr (detect_tone u)),
                       (''context'',
                          JObj [(''reply_type'', JStr ''reply''),
                                (''urgency'',
                                   JStr (if detect_tone u = ''urgent'' then ''high''
                                         else ''normal''))])])"
    by (simp add: fallback_selection_def generate_fallback_arguments_request)
next
  assume "map_of input_data ''user_request'' = None"
  then show "fallback_selection input_data =
            Inr (''email_draft'',
                 JObj [(''original_email'',
                          JStr (or_user_request (strip (text_content input_data)))),
                       (''tone'', JStr ''professional''),
                       (''context'', JObj [(''reply_type'', JStr ''reply''),
                                           (''urgency'', JStr ''normal'')])])"
    by (simp add: fallback_selection_def generate_fallback_arguments_legacy)
next
  assume a: "llm = Inr (Some resp) \<and> loads (strip resp) = None"
  then have "loads (strip resp) = None" and "llm = Inr (Some resp)"
    by simp_all
  then show "select_tool_and_generate_args loads llm tools input_data =
            (case scan_tool_names (map fst tools) (lower resp) of
               Some tool_name \<Rightarrow>
                 (if tool_name \<in> set (map fst tools)
                  then Inr (tool_name,
                            JObj [(''original_email'',
                                     JStr (or_user_request (strip (resp @ '' '')))),
                                  (''tone'', JStr ''professional''),
                                  (''context'', JObj [(''reply_type'', JStr ''reply''),
                                                      (''urgency'', JStr ''normal'')])])
                  else fallback_selection input_data)
             | None \<Rightarrow>
                 (if ''email_draft'' \<in> set (map fst tools)
                  then Inr (''email_draft'',
                            JObj [(''original_email'',
                                     JStr (or_user_request (strip (resp @ '' '')))),
                                  (''tone'', JStr ''professional''),
                                  (''context'', JObj [(''reply_type'', JStr ''reply''),
                                                      (''urgency'', JStr ''normal'')])])
                  else fallback_selection input_data))"
    using select_on_not_json [of loads resp tools input_data] by simp
qed

theorem llm_failure_degrades_to_fallback_witness:
  "map_of [(''user_request'', JStr ''Reply casually: hello there'')] ''user_request''
     = Some (JStr ''Reply casually: hello there'')
   \<and> select_tool_and_generate_args weather_loads (Inl (Exn TimeoutError ''timed out''))
        [(''calendar'', calendar_tool)] [(''user_request'', JStr ''Reply casually: hello there'')]
       = Inr (''email_draft'',
              JObj [(''original_email'', JStr ''hello there''),
                    (''tone'', JStr ''casual''),
                    (''context'', JObj [(''reply_type'', JStr ''reply''),
                                        (''urgency'', JStr ''normal'')])])
   \<and> map_of [(''subject'', JStr ''Lunch''), (''count'', JNum 2)] ''user_request'' = None
   \<and> select_tool_and_generate_args weather_loads (Inl (Exn TimeoutError ''timed out''))
        [(''calendar'', calendar_tool)] [(''subject'', JStr ''Lunch''), (''count'', JNum 2)]
       = Inr (''email_draft'',
              JObj [(''original_email'', JStr ''Lunch''),
                    (''tone'', JStr ''professional''),
                    (''context'', JObj [(''reply_type'', JStr ''reply''),
                                        (''urgency'', JStr ''normal'')])])
   \<and> weather_loads (strip ''I would pick the calendar'') = None
   \<and> select_tool_and_generate_args weather_loads (Inr (Some ''I would pick the calendar''))
        [(''calendar'', calendar_tool)] [(''user_request'', JStr ''Reply casually: hello there'')]
       = Inr (''calendar'',
              JObj [(''original_email'', JStr ''I would pick the calendar''),
                    (''tone'', JStr ''professional''),
                    (''context'', JObj [(''reply_type'', JStr ''reply''),
                                        (''urgency'', JStr ''normal'')])])"
proof -
  let ?req = "[(''user_request'', JStr ''Reply casually: hello there'')]"
  let ?legacy = "[(''subject'', JStr ''Lunch''), (''count'', JNum 2)]"
  let ?tools = "[(''calendar'', calendar_tool)]"
  let ?e = "Exn TimeoutError ''timed out''"
  have h1: "map_of ?req ''user_request'' = Some (JStr ''Reply casually: hello there'')"
    by simp
  have h2: "map_of ?legacy ''user_request'' = None"
    by simp
  have h3: "weather_loads (strip ''I would pick the calendar'') = None"
    by code_simp
  have v1: "or_user_request (extract_original_email ''Reply casually: hello there'')
              = ''hello there''"
    by code_simp
  have v2: "detect_tone ''Reply casually: hello there'' = ''casual''"
    by code_simp
  have v3: "or_user_request (strip (text_content ?legacy)) = ''Lunch''"
    by code_simp
  have v4: "scan_tool_names (map fst ?tools) (lower ''I would pick the calendar'')
              = Some ''calendar''"
    by code_simp
  have v5: "or_user_request (strip (''I would pick the calendar'' @ '' ''))
              = ''I would pick the calendar''"
    by code_simp
  show ?thesis
    using h1 h2 h3 v1 v2 v3 v4 v5
      llm_failure_degrades_to_fallback [of "Inl ?e" ?e None weather_loads ?tools ?req
        "''Reply casually: hello there''" "''I would pick the calendar''"]
      llm_failure_degrades_to_fallback [of "Inl ?e" ?e None weather_loads ?tools ?legacy
        "''Reply casually: hello there''" "''I would pick the calendar''"]
      llm_failure_degrades_to_fallback [of "Inr (Some ''I would pick the calendar'')" ?e None
        weather_loads ?tools ?req
        "''Reply casually: hello there''" "''I would pick the calendar''"]
    by simp
qed

lemma select_empty_registry:
  assumes "user_request_is_str input_data"
  shows "\<exists>a. select_tool_and_generate_args loads llm [] input_data = Inr (''email_draft'', a)"
proof -
  obtain a where a: "generate_fallback_arguments input_data = Inr a"
    and f: "fallback_selection input_data = Inr (''email_draft'', a)"
    using assms fallback_selection_str by blast
  show ?thesis
  proof (cases "llm_select_body loads llm [] input_data")
    case (Inl e)
    with f show ?thesis
      by (simp add: select_on_failure)
  next
    case (Inr r)
    obtain t b where r: "r = (t, b)" by (cases r)
    with Inr have "t = ''email_draft''"
      using llm_select_body_tool [of loads llm "[]" input_data t b] by simp
    with Inr r show ?thesis
      by (simp add: select_tool_and_generate_args_def llm_select_and_generate_def)
  qed
qed

text \<open>
  C7 (as stated). With nothing registered the selector would report an error and return
  no selection. With no tools at all and the call of the model timing out, the selector
  returns the selection \<open>email_draft\<close>.
\<close>

theorem empty_registry_selection_counterexample:
  "select_tool_and_generate_args weather_loads (Inl (Exn TimeoutError ''timed out'')) []
     [(''user_request'', JStr ''hello'')]
     = Inr (''email_draft'',
            JObj [(''original_email'', JStr ''hello''),
                  (''tone'', JStr ''professional''),
                  (''context'', JObj [(''reply_type'', JStr ''reply''),
                                      (''urgency'', JStr ''normal'')])])"
  by code_simp

text \<open>
  C7 (amended). With no server loaded, \<open>do_task\<close> answers every request with a failure
  mapping (\<open>success = False\<close>, an error text, an empty list of available servers) and
  raises nothing; when the request's \<open>user_request\<close> is a string, the mapping is the one
  with the text "No MCP servers available". The selector with no tool registered
  reports no error: for a payload whose \<open>user_request\<close> is a string (or absent) it
  returns the selection \<open>email_draft\<close>.
\<close>

theorem empty_registry_outcomes:
  "(\<exists>r tr2 m. do_task env [] request tr = (Inr (JObj r), tr2)
        \<and> map_of r ''success'' = Some (JBool False)
        \<and> map_of r ''error'' = Some (JStr m)
        \<and> map_of r ''available_servers'' = Some (JList []))
   \<and> (request_user_request request = Inr (JStr u)
      \<longrightarrow> do_task env [] request tr
            = (Inr (JObj [(''success'', JBool False),
                          (''error'', JStr ''No MCP servers available''),
                          (''available_servers'', JList [])]), tr))
   \<and> (user_request_is_str input_data
      \<longrightarrow> (\<exists>a. select_tool_and_generate_args loads llm [] input_data
                  = Inr (''email_draft'', a)))"
proof (intro conjI impI)
  show "\<exists>r tr2 m. do_task env [] request tr = (Inr (JObj r), tr2)
        \<and> map_of r ''success'' = Some (JBool False)
        \<and> map_of r ''error'' = Some (JStr m)
        \<and> map_of r ''available_servers'' = Some (JList [])"
  proof (cases "request_user_request request")
    case (Inl e)
    then show ?thesis
      by (simp add: do_task_def do_task_body_def)
  next
    case (Inr w)
    then show ?thesis
      by (cases w)
        (simp_all add: do_task_def do_task_body_def find_server_by_keywords_def
          no_servers_available_def)
  qed
next
  assume "request_user_request request = Inr (JStr u)"
  then show "do_task env [] request tr
            = (Inr (JObj [(''success'', JBool False),
                          (''error'', JStr ''No MCP servers available''),
                          (''available_servers'', JList [])]), tr)"
    by (simp add: do_task_def do_task_body_def find_server_by_keywords_def
          no_servers_available_def)
next
  assume "user_request_is_str input_data"
  then show "\<exists>a. select_tool_and_generate_args loads llm [] input_data
                  = Inr (''email_draft'', a)"
    by (rule select_empty_registry)
qed

theorem empty_registry_outcomes_witness:
  "request_user_request [(''user_request'', JStr ''please draft an email'')]
     = Inr (JStr ''please draft an email'')
   \<and> do_task quiet_env [] [(''user_request'', JStr ''please draft an email'')] []
       = (Inr (JObj [(''success'', JBool False),
                     (''error'', JStr ''No MCP servers available''),
                     (''available_servers'', JList [])]), [])
   \<and> user_request_is_str [(''user_request'', JStr ''please draft an email'')]
   \<and> (\<exists>a. select_tool_and_generate_args weather_loads (Inr (Some weather_response)) []
              [(''user_request'', JStr ''please draft an email'')]
             = Inr (''email_draft'', a))"
proof -
  have h1: "request_user_request [(''user_request'', JStr ''please draft an email'')]
              = Inr (JStr ''please draft an email'')"
    by (simp add: request_user_request_def)
  have h2: "user_request_is_str [(''user_request'', JStr ''please draft an email'')]"
    by (simp add: user_request_is_str_def)
  show ?thesis
    using h1 h2
      empty_registry_outcomes [of quiet_env "[(''user_request'', JStr ''please draft an email'')]"
        "[]" "''please draft an email''" "[(''user_request'', JStr ''please draft an email'')]"
        weather_loads "Inr (Some weather_response)"]
    by simp
qed

end
